theory Spec2Isabelle
  imports Complex_Main "HOL-Library.Sublist"
begin

section \<open>Office documents to PDF: the two processors of pptx-to-pdf.ts\<close>

text \<open>
  The source holds two modules of the same shape: the PowerPoint processor
  (\<open>PPTXToPDFProcessor\<close>) and the Word processor (\<open>WordToPDFProcessor\<close>). They differ in
  their texts, their extension whitelist and their extension-stripping regular expression
  only, so one definition indexed by the \<open>family\<close> stands for both classes. Each module
  has its own module-level \<open>converterPromise\<close> and \<open>converterInstance\<close>.

  JavaScript numbers are modelled as follows: counts and byte sizes as \<open>nat\<close>; progress
  percentages, which are finite doubles, as the \<open>real\<close> numbers they denote, with the
  product of line 114 rounded as the double multiplication rounds it. Strings are
  \<open>char\<close> lists; letters outside ASCII are opaque, which is exact for every comparison made here,
  since no character outside ASCII is mapped to one of the letters of the whitelists by
  \<open>toLowerCase\<close> or by a case-insensitive regular expression without the \<open>u\<close> flag.
\<close>

subsection \<open>Data\<close>

datatype family = Presentation | Document

datatype PDFErrorCode =
  INVALID_OPTIONS | FILE_TYPE_INVALID | PROCESSING_CANCELLED | PROCESSING_FAILED

text \<open>The fields \<open>name\<close>, \<open>size\<close> and \<open>type\<close> of a browser \<open>File\<close>.\<close>

record File =
  fname :: string
  fsize :: nat
  ftype :: string

type_synonym Blob = "nat list"

text \<open>A value thrown or a rejection reason: an \<open>Error\<close> with its message, or anything else.\<close>

datatype thrown = JsError string | NonError

text \<open>
  Modelled from the spec: \<open>ProcessOutput\<close> of \<open>@/types/pdf\<close> and the constructors
  \<open>createSuccessOutput\<close> and \<open>createErrorOutput\<close> of \<open>BasePDFProcessor\<close> are not part of
  the source. The spec gives the output as a tagged variant: success (binary payload,
  output filename, metadata map) or failure (error kind, human message, optional
  diagnostic detail).
\<close>

datatype ProcessOutput =
  Success Blob string "(string \<times> string) list"
| Failure PDFErrorCode string "string option"

definition createSuccessOutput :: "Blob \<Rightarrow> string \<Rightarrow> (string \<times> string) list \<Rightarrow> ProcessOutput" where
  "createSuccessOutput blob filename metadata = Success blob filename metadata"

definition createErrorOutput :: "PDFErrorCode \<Rightarrow> string \<Rightarrow> string option \<Rightarrow> ProcessOutput" where
  "createErrorOutput code message details = Failure code message details"

fun isSuccess :: "ProcessOutput \<Rightarrow> bool" where
  "isSuccess (Success _ _ _) = True"
| "isSuccess (Failure _ _ _) = False"

fun errorCode :: "ProcessOutput \<Rightarrow> PDFErrorCode option" where
  "errorCode (Success _ _ _) = None"
| "errorCode (Failure c _ _) = Some c"

fun outputFilename :: "ProcessOutput \<Rightarrow> string option" where
  "outputFilename (Success _ f _) = Some f"
| "outputFilename (Failure _ _ _) = None"

fun outputMetadata :: "ProcessOutput \<Rightarrow> (string \<times> string) list option" where
  "outputMetadata (Success _ _ m) = Some m"
| "outputMetadata (Failure _ _ _) = None"

subsection \<open>Constants\<close>

definition MAX_FILE_SIZE :: nat where
  "MAX_FILE_SIZE = 50 * 1024 * 1024"

definition CONVERT_TIMEOUT_MS :: nat where
  "CONVERT_TIMEOUT_MS = 5 * 60 * 1000"

subsection \<open>Double arithmetic\<close>

text \<open>
  \<open>percent * 0.8\<close> is a product of doubles. The literal \<open>0.8\<close> denotes the double
  \<open>3602879701896397 / 2^52\<close>, and the product is the exact product rounded to the nearest
  double, ties to even: 53 significant bits, down to the exponent \<open>-1022\<close> of the
  subnormal numbers. (A product by \<open>0.8\<close> does not overflow.) So \<open>7 * 0.8\<close> is
  \<open>5.6000000000000005\<close>, and \<open>6.249999999999999 * 0.8\<close> is exactly 5.
\<close>

definition double_0_8 :: real where
  "double_0_8 = 3602879701896397 / 4503599627370496"

text \<open>The exponent \<open>e\<close> with \<open>2^e \<le> x < 2^(e+1)\<close>, for \<open>x > 0\<close> within \<open>fuel\<close> steps of 1.\<close>

fun binade :: "nat \<Rightarrow> real \<Rightarrow> int" where
  "binade fuel x =
     (if fuel = 0 then 0
      else if 2 \<le> x then binade (fuel - 1) (x / 2) + 1
      else if x < 1 then binade (fuel - 1) (x * 2) - 1
      else 0)"

declare binade.simps [simp del]

definition pow2 :: "int \<Rightarrow> real" where
  "pow2 k = (if 0 \<le> k then 2 ^ nat k else 1 / 2 ^ nat (- k))"

definition roundHalfEven :: "real \<Rightarrow> int" where
  "roundHalfEven x =
     (let f = \<lfloor>x\<rfloor>; d = x - of_int f
      in if d < 1 / 2 then f else if 1 / 2 < d then f + 1 else if even f then f else f + 1)"

definition roundDouble :: "real \<Rightarrow> real" where
  "roundDouble x =
     (if x = 0 then 0
      else let a = \<bar>x\<bar>;
               ulp = pow2 (max (binade 2200 a) (- 1022) - 52);
               r = of_int (roundHalfEven (a / ulp)) * ulp
           in if x < 0 then - r else r)"

definition double_times :: "real \<Rightarrow> real \<Rightarrow> real" where
  "double_times a b = roundDouble (a * b)"

subsection \<open>Strings and numbers in texts\<close>

definition digit_char :: "nat \<Rightarrow> char" where
  "digit_char d = ''0123456789'' ! d"

text \<open>The decimal text of a non-negative integer, as a template literal prints it.\<close>

fun show_nat :: "nat \<Rightarrow> string" where
  "show_nat n = (if n < 10 then [digit_char n] else show_nat (n div 10) @ [digit_char (n mod 10)])"

declare show_nat.simps [simp del]

text \<open>
  \<open>(bytes / 1024 / 1024).toFixed(1)\<close>. Dividing by a power of two is exact, and
  \<open>toFixed(1)\<close> takes the integer \<open>n\<close> with \<open>n / 10\<close> nearest to the quotient, the larger
  one of two, and prints it with a point before its last digit: \<open>n\<close> is
  \<open>\<lfloor>10 * bytes / 2^20 + 1/2\<rfloor>\<close>. (Exact below \<open>10^21\<close> MB, beyond any \<open>File\<close>.)
\<close>

definition toFixed1_MB :: "nat \<Rightarrow> string" where
  "toFixed1_MB bytes =
     (let n = (10 * bytes + 524288) div 1048576
      in show_nat (n div 10) @ ''.'' @ [digit_char (n mod 10)])"

definition upperLower :: "(char \<times> char) list" where
  "upperLower = zip ''ABCDEFGHIJKLMNOPQRSTUVWXYZ'' ''abcdefghijklmnopqrstuvwxyz''"

definition toLowerCase_char :: "char \<Rightarrow> char" where
  "toLowerCase_char c = (case map_of upperLower c of None \<Rightarrow> c | Some d \<Rightarrow> d)"

definition toLowerCase :: "string \<Rightarrow> string" where
  "toLowerCase s = map toLowerCase_char s"

text \<open>\<open>s.split(sep)\<close> for a one-character separator: never an empty array.\<close>

fun splitStr :: "char \<Rightarrow> string \<Rightarrow> string list" where
  "splitStr sep [] = [[]]"
| "splitStr sep (c # cs) =
     (if c = sep then [] # splitStr sep cs
      else (case splitStr sep cs of [] \<Rightarrow> [[c]] | s # ss \<Rightarrow> (c # s) # ss))"

text \<open>\<open>Array.prototype.pop\<close>: the last element, \<open>undefined\<close> on an empty array.\<close>

definition pop :: "'a list \<Rightarrow> 'a option" where
  "pop xs = (if xs = [] then None else Some (last xs))"

text \<open>\<open>file.name.split('.').pop()?.toLowerCase() || ''\<close>\<close>

definition fileExt :: "string \<Rightarrow> string" where
  "fileExt nm = (case pop (splitStr CHR ''.'' nm) of None \<Rightarrow> [] | Some s \<Rightarrow> toLowerCase s)"

fun validExts :: "family \<Rightarrow> string list" where
  "validExts Presentation = [''pptx'', ''ppt'', ''odp'']"
| "validExts Document = [''docx'', ''doc'', ''odt'', ''rtf'']"

text \<open>
  The regular expressions \<open>/\.(pptx?|odp)$/i\<close> and \<open>/\.(docx?|odt|rtf)$/i\<close>. The words
  that the group matches are listed in the order in which the matcher tries them; since
  \<open>$\<close> has no \<open>m\<close> flag, a match at a position is a match of the whole rest of the string.
\<close>

fun regexWords :: "family \<Rightarrow> string list" where
  "regexWords Presentation = [''pptx'', ''ppt'', ''odp'']"
| "regexWords Document = [''docx'', ''doc'', ''odt'', ''rtf'']"

definition regexMatchesHere :: "family \<Rightarrow> string \<Rightarrow> bool" where
  "regexMatchesHere fam s =
     (case s of [] \<Rightarrow> False
      | c # r \<Rightarrow> c = CHR ''.'' \<and> toLowerCase r \<in> set (regexWords fam))"

text \<open>
  \<open>name.replace(regex, '')\<close>: the matcher tries the start positions from the left and
  the first match, which reaches the end of the string, is removed.
\<close>

fun replaceExt :: "family \<Rightarrow> string \<Rightarrow> string" where
  "replaceExt fam [] = []"
| "replaceExt fam (c # cs) =
     (if regexMatchesHere fam (c # cs) then [] else c # replaceExt fam cs)"

subsection \<open>Texts of the two processors\<close>

fun docNoun :: "family \<Rightarrow> string" where
  "docNoun Presentation = ''PowerPoint presentation''"
| "docNoun Document = ''Word document''"

fun countMessage :: "family \<Rightarrow> string" where
  "countMessage fam = ''Please provide exactly one '' @ docNoun fam @ ''.''"

fun typeMessage :: "family \<Rightarrow> string" where
  "typeMessage Presentation = ''Invalid file type. Please upload .pptx, .ppt, or .odp.''"
| "typeMessage Document = ''Invalid file type. Please upload .docx, .doc, .odt, or .rtf.''"

definition sizeMessage :: "nat \<Rightarrow> string" where
  "sizeMessage bytes =
     ''File is too large ('' @ toFixed1_MB bytes @ '' MB). Maximum supported size is ''
       @ show_nat (MAX_FILE_SIZE div 1024 div 1024) @ '' MB.''"

definition sizeDetails :: "nat \<Rightarrow> string" where
  "sizeDetails bytes =
     ''File size: '' @ show_nat bytes @ '' bytes, limit: '' @ show_nat MAX_FILE_SIZE @ '' bytes''"

definition loadingMessage :: string where
  "loadingMessage = ''Loading conversion engine (first time may take 1-2 minutes)...''"

fun convertingMessage :: "family \<Rightarrow> string" where
  "convertingMessage Presentation = ''Converting PowerPoint to PDF...''"
| "convertingMessage Document = ''Converting Word document to PDF...''"

fun failedMessage :: "family \<Rightarrow> string" where
  "failedMessage Presentation = ''Failed to convert PowerPoint to PDF.''"
| "failedMessage Document = ''Failed to convert Word document to PDF.''"

definition timeoutMessage :: string where
  "timeoutMessage =
     ''Conversion timed out after '' @ show_nat (CONVERT_TIMEOUT_MS div 60000)
       @ '' minutes. The file may be too complex.''"

definition cancelledMessage :: string where
  "cancelledMessage = ''Processing was cancelled.''"

subsection \<open>The processor instance\<close>

text \<open>
  Modelled from the spec: the base class \<open>BasePDFProcessor\<close> is not part of the source.
  The spec gives it a progress value in [0,100] that is consumed through the
  caller-supplied callback, and a cancellation flag; both are reset at the start of every
  \<open>process\<close> call. So \<open>updateProgress\<close> stores the value, kept within [0,100], and hands it
  to the callback when there is one; \<open>checkCancelled\<close> reads the flag that \<open>cancel\<close> sets.

  \<open>onProgress\<close> tells whether the caller supplied a callback, and \<open>delivered\<close> lists the
  calls the callback has received, oldest first. \<open>conversionProgressTimer\<close> holds, while
  the interval is running, the message its closure captured.
\<close>

record Processor =
  progress :: real
  isCancelled :: bool
  onProgress :: bool
  conversionProgressTimer :: "string option"
  delivered :: "(real \<times> string) list"

definition updateProgress :: "real \<Rightarrow> string \<Rightarrow> Processor \<Rightarrow> Processor" where
  "updateProgress p message st =
     (let v = min 100 (max 0 p)
      in st\<lparr>progress := v,
            delivered := (if onProgress st then delivered st @ [(v, message)] else delivered st)\<rparr>)"

definition checkCancelled :: "Processor \<Rightarrow> bool" where
  "checkCancelled st = isCancelled st"

definition cancel :: "Processor \<Rightarrow> Processor" where
  "cancel st = st\<lparr>isCancelled := True\<rparr>"

definition super_reset :: "Processor \<Rightarrow> Processor" where
  "super_reset st = st\<lparr>progress := 0, isCancelled := False\<rparr>"

definition stopConversionProgress :: "Processor \<Rightarrow> Processor" where
  "stopConversionProgress st =
     (case conversionProgressTimer st of
        None \<Rightarrow> st
      | Some _ \<Rightarrow> st\<lparr>conversionProgressTimer := None\<rparr>)"

definition startConversionProgress :: "string \<Rightarrow> Processor \<Rightarrow> Processor" where
  "startConversionProgress message st =
     (stopConversionProgress st)\<lparr>conversionProgressTimer := Some message\<rparr>"

text \<open>
  One firing of the 800 ms interval; a cleared interval does not fire. The sum
  \<open>progress + 1\<close> is exact for the values that the interval meets in \<open>process\<close>, the
  whole numbers from 85 on.
\<close>

definition intervalTick :: "Processor \<Rightarrow> Processor" where
  "intervalTick st =
     (case conversionProgressTimer st of
        None \<Rightarrow> st
      | Some message \<Rightarrow>
          if progress st \<ge> 98 then st else updateProgress (progress st + 1) message st)"

primrec intervalTicks :: "nat \<Rightarrow> Processor \<Rightarrow> Processor" where
  "intervalTicks 0 st = st"
| "intervalTicks (Suc n) st = intervalTicks n (intervalTick st)"

definition reset :: "Processor \<Rightarrow> Processor" where
  "reset st = super_reset (stopConversionProgress st)"

subsection \<open>The converter provider of one module\<close>

text \<open>
  Modelled from the spec: the engine of \<open>@/lib/libreoffice\<close> is not part of the source.
  Its handle answers \<open>isReady()\<close>; \<open>initialize\<close> reports \<open>{percent, message}\<close> pairs and
  resolves when the handle is ready, or rejects.
\<close>

datatype Converter = Converter (isReady: bool)

datatype promise = Pending | Fulfilled | Rejected thrown

record Module =
  converterPromise :: "promise option"
  converterInstance :: "Converter option"

text \<open>
  What the body of the async function assigned to \<open>converterPromise\<close> meets: the dynamic
  import fails, or \<open>initialize\<close> makes its progress reports and then rejects or resolves.
\<close>

datatype initOutcome =
  ImportRejects thrown
| InitializeRejects "(real \<times> string) list" thrown
| InitializeResolves "(real \<times> string) list"

fun initReports :: "initOutcome \<Rightarrow> (real \<times> string) list" where
  "initReports (ImportRejects e) = []"
| "initReports (InitializeRejects rs e) = rs"
| "initReports (InitializeResolves rs) = rs"

text \<open>
  \<open>getConverter\<close> up to its first \<open>await\<close>: it returns the ready handle, or awaits the
  promise that is there, or stores a new pending promise and awaits that.
\<close>

datatype entry = ReturnsReady Converter | AwaitsExisting | StartsInitialization

definition getConverter_enter :: "Module \<Rightarrow> entry \<times> Module" where
  "getConverter_enter m =
     (case (case converterInstance m of
              Some c \<Rightarrow> if isReady c then Some c else None
            | None \<Rightarrow> None) of
        Some c \<Rightarrow> (ReturnsReady c, m)
      | None \<Rightarrow>
          if converterPromise m \<noteq> None then (AwaitsExisting, m)
          else (StartsInitialization, m\<lparr>converterPromise := Some Pending\<rparr>))"

text \<open>The body of the async function, run until its promise settles.\<close>

fun runInitialization :: "initOutcome \<Rightarrow> Module \<Rightarrow> Module" where
  "runInitialization (ImportRejects e) m = m\<lparr>converterPromise := Some (Rejected e)\<rparr>"
| "runInitialization (InitializeRejects rs e) m =
     m\<lparr>converterInstance := Some (Converter False), converterPromise := Some (Rejected e)\<rparr>"
| "runInitialization (InitializeResolves rs) m =
     m\<lparr>converterInstance := Some (Converter True), converterPromise := Some Fulfilled\<rparr>"

text \<open>
  \<open>await converterPromise; return converterInstance\<close>, once the promise has settled:
  a rejection is thrown again in every caller that awaits it.
\<close>

definition getConverter_resume :: "Module \<Rightarrow> thrown + Converter option" where
  "getConverter_resume m =
     (case converterPromise m of
        Some (Rejected e) \<Rightarrow> Inl e
      | _ \<Rightarrow> Inr (converterInstance m))"

text \<open>
  A whole call of \<open>getConverter\<close>: what it returns or throws, the module afterwards, and
  the engine reports handed to the caller's \<open>onProgress\<close>. The outcome is that of the
  initialization this call starts or, when it joins one that is pending, of that one,
  whose reports go to the callback of the caller that started it.
\<close>

definition getConverter ::
  "Module \<Rightarrow> initOutcome \<Rightarrow> (thrown + Converter option) \<times> Module \<times> (real \<times> string) list" where
  "getConverter m outcome =
     (case getConverter_enter m of
        (ReturnsReady c, m') \<Rightarrow> (Inr (Some c), m', [])
      | (AwaitsExisting, m') \<Rightarrow>
          (let m'' = (if converterPromise m' = Some Pending then runInitialization outcome m'
                      else m')
           in (getConverter_resume m'', m'', []))
      | (StartsInitialization, m') \<Rightarrow>
          (let m'' = runInitialization outcome m'
           in (getConverter_resume m'', m'', initReports outcome)))"

subsection \<open>process\<close>

text \<open>
  What happens around one call: how the initialization settles, whether \<open>cancel()\<close> is
  called while \<open>getConverter\<close> is awaited, when and how \<open>convertToPdf\<close> settles, and whether
  \<open>cancel()\<close> is called while the race is pending.

  Time is counted in milliseconds from the moment the race begins, which is after
  \<open>getConverter\<close> has returned: there \<open>convertToPdf\<close> is called and the timer of
  \<open>CONVERT_TIMEOUT_MS\<close> is set. \<open>conversionSettles\<close> is \<open>None\<close> when \<open>convertToPdf\<close> never
  settles. The timers are taken to be exact: the race is won by the conversion when it
  settles no later than the timer fires, and the 800 ms interval has fired once for every
  full 800 ms of the race.
\<close>

datatype settlement = Resolves Blob | Rejects thrown

datatype raceOutcome = ConversionResolves Blob | ConversionRejects thrown | TimerWins

record Env =
  initOutcome :: initOutcome
  cancelDuringInit :: bool
  conversionSettles :: "(nat \<times> settlement) option"
  cancelDuringConversion :: bool

definition settlesWithin :: "nat \<Rightarrow> Env \<Rightarrow> bool" where
  "settlesWithin ms env =
     (case conversionSettles env of None \<Rightarrow> False | Some (t, s) \<Rightarrow> t \<le> ms)"

definition raceOutcome :: "Env \<Rightarrow> raceOutcome" where
  "raceOutcome env =
     (case conversionSettles env of
        None \<Rightarrow> TimerWins
      | Some (t, s) \<Rightarrow>
          if t \<le> CONVERT_TIMEOUT_MS
          then (case s of Resolves pdfBlob \<Rightarrow> ConversionResolves pdfBlob
                        | Rejects e \<Rightarrow> ConversionRejects e)
          else TimerWins)"

definition raceDuration :: "Env \<Rightarrow> nat" where
  "raceDuration env =
     (case conversionSettles env of
        None \<Rightarrow> CONVERT_TIMEOUT_MS
      | Some (t, s) \<Rightarrow> min t CONVERT_TIMEOUT_MS)"

definition ticksDuringConversion :: "Env \<Rightarrow> nat" where
  "ticksDuringConversion env = raceDuration env div 800"

record Result =
  returned :: ProcessOutput
  processor :: Processor
  moduleAfter :: Module
  convertCalls :: "File list"

text \<open>The callback that \<open>process\<close> passes to \<open>getConverter\<close>.\<close>

definition relayProgress :: "real \<times> string \<Rightarrow> Processor \<Rightarrow> Processor" where
  "relayProgress r st = updateProgress (min (double_times (fst r) double_0_8) 80) (snd r) st"

definition catchBlock :: "family \<Rightarrow> thrown \<Rightarrow> Processor \<Rightarrow> Module \<Rightarrow> File list \<Rightarrow> Result" where
  "catchBlock fam error st m calls =
     \<lparr>returned = createErrorOutput PROCESSING_FAILED (failedMessage fam)
                 (Some (case error of JsError msg \<Rightarrow> msg | NonError \<Rightarrow> ''Unknown error'')),
      processor = stopConversionProgress st, moduleAfter = m, convertCalls = calls\<rparr>"

text \<open>The \<open>TypeError\<close> of a method call on \<open>null\<close> (its wording is the engine's).\<close>

definition nullCallMessage :: string where
  "nullCallMessage = ''Cannot read properties of null''"

definition tryBlock :: "family \<Rightarrow> Module \<Rightarrow> Processor \<Rightarrow> File \<Rightarrow> Env \<Rightarrow> Result" where
  "tryBlock fam m st file env =
     (let st1 = updateProgress 5 loadingMessage st
      in case getConverter m (initOutcome env) of (r, m', reports) \<Rightarrow>
      let st2 = fold relayProgress reports st1;
          st3 = (if cancelDuringInit env then cancel st2 else st2)
      in case r of
           Inl e \<Rightarrow> catchBlock fam e st3 m' []
         | Inr converter \<Rightarrow>
             if checkCancelled st3 then
               \<lparr>returned = createErrorOutput PROCESSING_CANCELLED cancelledMessage None,
                processor = st3, moduleAfter = m', convertCalls = []\<rparr>
             else
               let st4 = updateProgress 85 (convertingMessage fam) st3;
                   st5 = startConversionProgress (convertingMessage fam) st4
               in case converter of
                    None \<Rightarrow> catchBlock fam (JsError nullCallMessage) st5 m' []
                  | Some c \<Rightarrow>
                      let st6 = intervalTicks (ticksDuringConversion env) st5;
                          st7 = (if cancelDuringConversion env then cancel st6 else st6)
                      in case raceOutcome env of
                           ConversionResolves pdfBlob \<Rightarrow>
                             let st8 = stopConversionProgress st7
                             in if checkCancelled st8 then
                                  \<lparr>returned = createErrorOutput PROCESSING_CANCELLED
                                              cancelledMessage None,
                                   processor = st8, moduleAfter = m', convertCalls = [file]\<rparr>
                                else
                                  \<lparr>returned = createSuccessOutput pdfBlob
                                              (replaceExt fam (fname file) @ ''.pdf'')
                                              [(''format'', ''pdf'')],
                                   processor = updateProgress 100 ''Conversion complete!'' st8,
                                   moduleAfter = m', convertCalls = [file]\<rparr>
                         | ConversionRejects e \<Rightarrow> catchBlock fam e st7 m' [file]
                         | TimerWins \<Rightarrow> catchBlock fam (JsError timeoutMessage) st7 m' [file])"

text \<open>
  \<open>process(input, onProgress)\<close> of the processor of family \<open>fam\<close>, on the module state
  \<open>m\<close> and the instance \<open>st0\<close>; \<open>cb\<close> tells whether \<open>onProgress\<close> is supplied. The list of
  delivered calls starts empty, so that it lists the calls of this invocation.
\<close>

definition process ::
  "family \<Rightarrow> Module \<Rightarrow> Processor \<Rightarrow> File list \<Rightarrow> bool \<Rightarrow> Env \<Rightarrow> Result" where
  "process fam m st0 files cb env =
     (let st = (reset st0)\<lparr>onProgress := cb, delivered := []\<rparr>
      in case files of
           [file] \<Rightarrow>
             if fileExt (fname file) \<notin> set (validExts fam) then
               \<lparr>returned = createErrorOutput FILE_TYPE_INVALID (typeMessage fam)
                           (Some (''Received: '' @ (if ftype file \<noteq> [] then ftype file
                                                   else fname file))),
                processor = st, moduleAfter = m, convertCalls = []\<rparr>
             else if fsize file > MAX_FILE_SIZE then
               \<lparr>returned = createErrorOutput INVALID_OPTIONS (sizeMessage (fsize file))
                           (Some (sizeDetails (fsize file))),
                processor = st, moduleAfter = m, convertCalls = []\<rparr>
             else tryBlock fam m st file env
         | _ \<Rightarrow>
             \<lparr>returned = createErrorOutput INVALID_OPTIONS (countMessage fam)
                         (Some (''Received '' @ show_nat (length files) @ '' file(s).'')),
              processor = st, moduleAfter = m, convertCalls = []\<rparr>)"

text \<open>A new instance, and the module before any call.\<close>

definition newProcessor :: Processor where
  "newProcessor = \<lparr>progress = 0, isCancelled = False, onProgress = False,
                   conversionProgressTimer = None, delivered = []\<rparr>"

definition freshModule :: Module where
  "freshModule = \<lparr>converterPromise = None, converterInstance = None\<rparr>"

text \<open>
  The call that the callback receives for one engine report: \<open>relayProgress\<close> passes
  \<open>Math.min(percent * 0.8, 80)\<close>, which \<open>updateProgress\<close> keeps within [0,100].
\<close>

definition relayedCall :: "real \<times> string \<Rightarrow> real \<times> string" where
  "relayedCall r = (min 100 (max 0 (min (double_times (fst r) double_0_8) 80)), snd r)"

subsection \<open>Both modules in one page\<close>

text \<open>
  The PowerPoint module and the Word module each declare \<open>converterPromise\<close> and
  \<open>converterInstance\<close> at module level; a page that loads both has both pairs.
\<close>

record Runtime =
  presentationModule :: Module
  documentModule :: Module

fun moduleOf :: "family \<Rightarrow> Runtime \<Rightarrow> Module" where
  "moduleOf Presentation rt = presentationModule rt"
| "moduleOf Document rt = documentModule rt"

fun withModule :: "family \<Rightarrow> Module \<Rightarrow> Runtime \<Rightarrow> Runtime" where
  "withModule Presentation m rt = rt\<lparr>presentationModule := m\<rparr>"
| "withModule Document m rt = rt\<lparr>documentModule := m\<rparr>"

text \<open>The \<open>getConverter\<close> of the module of family \<open>fam\<close>, up to its first \<open>await\<close>.\<close>

definition getConverter_enter_in :: "family \<Rightarrow> Runtime \<Rightarrow> entry \<times> Runtime" where
  "getConverter_enter_in fam rt =
     (case getConverter_enter (moduleOf fam rt) of (e, m') \<Rightarrow> (e, withModule fam m' rt))"

definition pendingInitializations :: "Runtime \<Rightarrow> nat" where
  "pendingInitializations rt =
     length (filter (\<lambda>fam. converterPromise (moduleOf fam rt) = Some Pending)
               [Presentation, Document])"

definition freshRuntime :: Runtime where
  "freshRuntime = \<lparr>presentationModule = freshModule, documentModule = freshModule\<rparr>"

subsection \<open>Example inputs\<close>

definition pdfBytes :: Blob where
  "pdfBytes = [37, 80, 68, 70]"

text \<open>
  The engine initializes without reports, nobody cancels, the conversion resolves after
  400 ms.
\<close>

definition quietEnv :: Env where
  "quietEnv = \<lparr>initOutcome = InitializeResolves [], cancelDuringInit = False,
               conversionSettles = Some (400, Resolves pdfBytes),
               cancelDuringConversion = False\<rparr>"

text \<open>The engine reports 0 percent when its initialization starts.\<close>

definition zeroReportEnv :: Env where
  "zeroReportEnv = quietEnv\<lparr>initOutcome := InitializeResolves [(0, ''Starting'')]\<rparr>"

text \<open>
  The engine reports 10, 50 and 100 percent; the conversion resolves after 2000 ms, so
  the interval fires twice.
\<close>

definition risingEnv :: Env where
  "risingEnv = quietEnv\<lparr>initOutcome :=
                  InitializeResolves [(10, ''Downloading''), (50, ''Compiling''), (100, ''Ready'')],
                conversionSettles := Some (2000, Resolves pdfBytes)\<rparr>"

text \<open>\<open>convertToPdf\<close> never settles.\<close>

definition hangingEnv :: Env where
  "hangingEnv = quietEnv\<lparr>conversionSettles := None\<rparr>"

definition cancelEarlyEnv :: Env where
  "cancelEarlyEnv = quietEnv\<lparr>cancelDuringInit := True\<rparr>"

definition cancelLateEnv :: Env where
  "cancelLateEnv = quietEnv\<lparr>cancelDuringConversion := True\<rparr>"

definition deckFile :: File where
  "deckFile = \<lparr>fname = ''slides.v2.pptx'', fsize = 2048, ftype = []\<rparr>"

definition reportFile :: File where
  "reportFile = \<lparr>fname = ''Report.DOCX'', fsize = 2048, ftype = []\<rparr>"

definition bareNameFile :: File where
  "bareNameFile = \<lparr>fname = ''pptx'', fsize = 2048, ftype = []\<rparr>"

definition hugeDeckFile :: File where
  "hugeDeckFile = \<lparr>fname = ''deck.pptx'', fsize = 60000000, ftype = []\<rparr>"

definition hugeTextFile :: File where
  "hugeTextFile = \<lparr>fname = ''notes.txt'', fsize = 60000000, ftype = ''text/plain''\<rparr>"

section \<open>Double arithmetic: the product by 0.8\<close>

lemma pow2_pos: "0 < pow2 k"
  by (simp add: pow2_def)

lemma roundHalfEven_nonneg: "0 \<le> x \<Longrightarrow> 0 \<le> roundHalfEven x"
  by (simp add: roundHalfEven_def Let_def)

lemma roundDouble_nonneg: "0 \<le> x \<Longrightarrow> 0 \<le> roundDouble x"
proof -
  assume x: "0 \<le> x"
  have "0 \<le> of_int (roundHalfEven (\<bar>x\<bar> / pow2 k)) * pow2 k" for k
  proof -
    have "0 \<le> \<bar>x\<bar> / pow2 k" using pow2_pos [of k] by simp
    then have "0 \<le> roundHalfEven (\<bar>x\<bar> / pow2 k)" by (rule roundHalfEven_nonneg)
    then show ?thesis using pow2_pos [of k] by simp
  qed
  then show ?thesis using x by (simp add: roundDouble_def Let_def)
qed

lemma double_times_nonneg: "0 \<le> p \<Longrightarrow> 0 \<le> double_times p double_0_8"
  by (simp add: double_times_def double_0_8_def roundDouble_nonneg)

text \<open>
  Products that are exact, and two that are not: the product of 7 is the next double
  above 5.6, and the product of the double just below 6.25 is 5.
\<close>

lemma double_times_examples:
  "double_times 0 double_0_8 = 0"
  "double_times 10 double_0_8 = 8"
  "double_times 50 double_0_8 = 40"
  "double_times 100 double_0_8 = 80"
  "double_times 7 double_0_8 = 6305039478318695 / 1125899906842624"
  "double_times (7036874417766399 / 1125899906842624) double_0_8 = 5"
  unfolding double_times_def double_0_8_def roundDouble_def Let_def
  by (simp_all add: binade.simps pow2_def roundHalfEven_def Let_def)

section \<open>Strings: extension and output name\<close>

lemma toLowerCase_char_dot: "toLowerCase_char c = CHR ''.'' \<longleftrightarrow> c = CHR ''.''"
  by (auto simp: toLowerCase_char_def upperLower_def split: option.splits if_splits)

lemma toLowerCase_dot_free: "CHR ''.'' \<in> set (toLowerCase s) \<longleftrightarrow> CHR ''.'' \<in> set s"
proof -
  have "\<And>c. (CHR ''.'' = toLowerCase_char c) = (c = CHR ''.'')"
    using toLowerCase_char_dot by (metis (no_types))
  then show ?thesis by (auto simp: toLowerCase_def image_iff)
qed

lemma regexWords_dot_free: "w \<in> set (regexWords fam) \<Longrightarrow> CHR ''.'' \<notin> set w"
  by (cases fam) auto

lemma regexWords_validExts: "regexWords fam = validExts fam"
  by (cases fam) simp_all

lemma splitStr_not_Nil: "splitStr sep s \<noteq> []"
  by (induction s) (auto split: list.splits)

lemma splitStr_no_sep: "sep \<notin> set s \<Longrightarrow> splitStr sep s = [s]"
  by (induction s) auto

lemma splitStr_sep_two: "\<exists>x y ys. splitStr sep (base @ sep # e) = x # y # ys"
proof (induction base)
  case Nil
  then show ?case using splitStr_not_Nil [of sep e] by (cases "splitStr sep e") auto
next
  case (Cons b bs)
  then show ?case by auto
qed

lemma last_splitStr_append:
  "last (splitStr sep (base @ sep # e)) = last (splitStr sep e)"
proof (induction base)
  case Nil
  then show ?case by (simp add: splitStr_not_Nil)
next
  case (Cons b bs)
  obtain x y ys where "splitStr sep (bs @ sep # e) = x # y # ys"
    using splitStr_sep_two by blast
  with Cons show ?case by auto
qed

lemma fileExt_no_dot: "CHR ''.'' \<notin> set nm \<Longrightarrow> fileExt nm = toLowerCase nm"
  by (simp add: fileExt_def pop_def splitStr_no_sep)

lemma fileExt_last_segment:
  "CHR ''.'' \<notin> set e \<Longrightarrow> fileExt (base @ ''.'' @ e) = toLowerCase e"
  by (simp add: fileExt_def pop_def splitStr_not_Nil last_splitStr_append splitStr_no_sep)

lemma regexMatchesHere_dot_free:
  "regexMatchesHere fam (c # r) \<Longrightarrow> c = CHR ''.'' \<and> CHR ''.'' \<notin> set r"
  using regexWords_dot_free [of "toLowerCase r" fam]
  by (auto simp: regexMatchesHere_def toLowerCase_dot_free)

lemma replaceExt_no_dot: "CHR ''.'' \<notin> set nm \<Longrightarrow> replaceExt fam nm = nm"
proof (induction nm)
  case Nil
  then show ?case by simp
next
  case (Cons c cs)
  then have "\<not> regexMatchesHere fam (c # cs)"
    using regexMatchesHere_dot_free [of fam c cs] by auto
  with Cons show ?case by simp
qed

lemma replaceExt_strips:
  assumes "CHR ''.'' \<notin> set e"
  shows "replaceExt fam (base @ ''.'' @ e) =
           (if toLowerCase e \<in> set (regexWords fam) then base else base @ ''.'' @ e)"
proof (induction base)
  case Nil
  show ?case
  proof (cases "toLowerCase e \<in> set (regexWords fam)")
    case True
    then show ?thesis by (simp add: regexMatchesHere_def)
  next
    case False
    then have "\<not> regexMatchesHere fam (CHR ''.'' # e)" by (simp add: regexMatchesHere_def)
    then show ?thesis using False assms by (simp add: replaceExt_no_dot)
  qed
next
  case (Cons b bs)
  have "\<not> regexMatchesHere fam (b # bs @ ''.'' @ e)"
    using regexMatchesHere_dot_free [of fam b "bs @ ''.'' @ e"] by auto
  with Cons show ?case by simp
qed

section \<open>The processor: fields through the operations\<close>

lemma updateProgress_fields [simp]:
  "isCancelled (updateProgress p msg st) = isCancelled st"
  "onProgress (updateProgress p msg st) = onProgress st"
  "conversionProgressTimer (updateProgress p msg st) = conversionProgressTimer st"
  "progress (updateProgress p msg st) = min 100 (max 0 p)"
  "delivered (updateProgress p msg st) =
     (if onProgress st then delivered st @ [(min 100 (max 0 p), msg)] else delivered st)"
  by (simp_all add: updateProgress_def Let_def)

lemma stopConversionProgress_fields [simp]:
  "isCancelled (stopConversionProgress st) = isCancelled st"
  "onProgress (stopConversionProgress st) = onProgress st"
  "conversionProgressTimer (stopConversionProgress st) = None"
  "progress (stopConversionProgress st) = progress st"
  "delivered (stopConversionProgress st) = delivered st"
  by (simp_all add: stopConversionProgress_def split: option.splits)

lemma startConversionProgress_fields [simp]:
  "isCancelled (startConversionProgress msg st) = isCancelled st"
  "onProgress (startConversionProgress msg st) = onProgress st"
  "conversionProgressTimer (startConversionProgress msg st) = Some msg"
  "progress (startConversionProgress msg st) = progress st"
  "delivered (startConversionProgress msg st) = delivered st"
  by (simp_all add: startConversionProgress_def)

lemma cancel_fields [simp]:
  "isCancelled (cancel st) = True"
  "onProgress (cancel st) = onProgress st"
  "conversionProgressTimer (cancel st) = conversionProgressTimer st"
  "progress (cancel st) = progress st"
  "delivered (cancel st) = delivered st"
  by (simp_all add: cancel_def)

lemma reset_fields [simp]:
  "isCancelled (reset st) = False"
  "onProgress (reset st) = onProgress st"
  "conversionProgressTimer (reset st) = None"
  "progress (reset st) = 0"
  by (simp_all add: reset_def super_reset_def)

lemma relayProgress_fields [simp]:
  "isCancelled (relayProgress r st) = isCancelled st"
  "onProgress (relayProgress r st) = onProgress st"
  "conversionProgressTimer (relayProgress r st) = conversionProgressTimer st"
  by (simp_all add: relayProgress_def)

lemma fold_relayProgress_fields [simp]:
  "isCancelled (fold relayProgress rs st) = isCancelled st"
  "onProgress (fold relayProgress rs st) = onProgress st"
  "conversionProgressTimer (fold relayProgress rs st) = conversionProgressTimer st"
  by (induction rs arbitrary: st; simp)+

lemma intervalTick_fields [simp]:
  "isCancelled (intervalTick st) = isCancelled st"
  "onProgress (intervalTick st) = onProgress st"
  "conversionProgressTimer (intervalTick st) = conversionProgressTimer st"
  by (simp_all add: intervalTick_def split: option.splits)

lemma intervalTicks_fields [simp]:
  "isCancelled (intervalTicks n st) = isCancelled st"
  "onProgress (intervalTicks n st) = onProgress st"
  "conversionProgressTimer (intervalTicks n st) = conversionProgressTimer st"
  by (induction n arbitrary: st; simp)+

lemma intervalTicks_stopped:
  "conversionProgressTimer st = None \<Longrightarrow> intervalTicks n st = st"
  by (induction n) (simp_all add: intervalTick_def)

lemma process_valid:
  "fileExt (fname file) \<in> set (validExts fam) \<Longrightarrow> fsize file \<le> MAX_FILE_SIZE \<Longrightarrow>
   process fam m st0 [file] cb env =
     tryBlock fam m ((reset st0)\<lparr>onProgress := cb, delivered := []\<rparr>) file env"
  by (simp add: process_def)

lemma tryBlock_errorCode:
  "errorCode (returned (tryBlock fam m st file env))
     \<in> {None, Some PROCESSING_CANCELLED, Some PROCESSING_FAILED}"
  by (simp add: tryBlock_def catchBlock_def createErrorOutput_def createSuccessOutput_def Let_def
      split: prod.splits sum.splits option.splits raceOutcome.splits)

lemma tryBlock_success:
  assumes "isSuccess (returned (tryBlock fam m st file env))"
  shows "\<exists>c m' reports blob.
           getConverter m (initOutcome env) = (Inr (Some c), m', reports) \<and>
           \<not> cancelDuringInit env \<and> \<not> cancelDuringConversion env \<and>
           raceOutcome env = ConversionResolves blob \<and>
           tryBlock fam m st file env =
             \<lparr>returned = Success blob (replaceExt fam (fname file) @ ''.pdf'') [(''format'', ''pdf'')],
              processor = updateProgress 100 ''Conversion complete!''
                (stopConversionProgress (intervalTicks (ticksDuringConversion env)
                  (startConversionProgress (convertingMessage fam)
                    (updateProgress 85 (convertingMessage fam)
                      (fold relayProgress reports (updateProgress 5 loadingMessage st)))))),
              moduleAfter = m', convertCalls = [file]\<rparr>"
  using assms
  by (auto simp: tryBlock_def catchBlock_def createErrorOutput_def createSuccessOutput_def Let_def
      checkCancelled_def
      split: prod.splits sum.splits option.splits raceOutcome.splits if_splits)

lemma process_success_single:
  assumes "isSuccess (returned (process fam m st0 files cb env))"
  shows "\<exists>file. files = [file] \<and> fileExt (fname file) \<in> set (validExts fam) \<and>
           fsize file \<le> MAX_FILE_SIZE"
  using assms
  by (auto simp: process_def Let_def createErrorOutput_def split: list.splits if_splits)

section \<open>Evaluation on given inputs\<close>

lemmas string_eval = show_nat.simps digit_char_def toLowerCase_def toLowerCase_char_def
  upperLower_def fileExt_def pop_def regexMatchesHere_def

lemmas text_eval = sizeMessage_def sizeDetails_def toFixed1_MB_def timeoutMessage_def
  MAX_FILE_SIZE_def CONVERT_TIMEOUT_MS_def loadingMessage_def cancelledMessage_def

lemmas run_eval = process_def tryBlock_def catchBlock_def getConverter_def
  getConverter_enter_def getConverter_resume_def relayProgress_def checkCancelled_def
  createErrorOutput_def createSuccessOutput_def raceOutcome_def raceDuration_def
  ticksDuringConversion_def Let_def

lemmas input_eval = quietEnv_def zeroReportEnv_def risingEnv_def hangingEnv_def
  cancelEarlyEnv_def cancelLateEnv_def deckFile_def reportFile_def bareNameFile_def
  hugeDeckFile_def hugeTextFile_def freshModule_def newProcessor_def
  pdfBytes_def


lemma sizeMessage_text:
  "sizeMessage bytes =
     ''File is too large ('' @ toFixed1_MB bytes @ '' MB). Maximum supported size is 50 MB.''"
  by (simp add: sizeMessage_def MAX_FILE_SIZE_def show_nat.simps digit_char_def)

lemma timeoutMessage_text:
  "timeoutMessage = ''Conversion timed out after 5 minutes. The file may be too complex.''"
  by (simp add: timeoutMessage_def CONVERT_TIMEOUT_MS_def show_nat.simps digit_char_def)

text \<open>The number in the message is the size in MB, rounded to one decimal.\<close>

lemma toFixed1_MB_rounds:
  fixes b :: nat
  defines "n \<equiv> (10 * b + 524288) div 1048576"
  shows "toFixed1_MB b = show_nat (n div 10) @ ''.'' @ [digit_char (n mod 10)]
         \<and> \<bar>real n / 10 - real b / 1048576\<bar> \<le> 1 / 20"
proof -
  have lo: "n * 1048576 \<le> 10 * b + 524288"
    unfolding n_def by simp
  have hi: "10 * b + 524288 < (n + 1) * 1048576"
    unfolding n_def using dividend_less_div_times [of 1048576 "10 * b + 524288"] by simp
  have rlo: "real n * 1048576 \<le> 10 * real b + 524288"
    using lo by (metis (mono_tags, opaque_lifting) of_nat_add of_nat_le_iff of_nat_mult of_nat_numeral)
  have rhi: "10 * real b + 524288 < (real n + 1) * 1048576"
    using hi by (metis (mono_tags, opaque_lifting) of_nat_1 of_nat_add of_nat_less_iff of_nat_mult of_nat_numeral)
  have "\<bar>real n / 10 - real b / 1048576\<bar> \<le> 1 / 20"
    using rlo rhi by (simp add: field_simps abs_le_iff)
  then show ?thesis by (simp add: toFixed1_MB_def n_def Let_def)
qed

section \<open>Validation\<close>

text \<open>
  Claim C4. A single file whose extension (the lower-cased part of the name after the
  last dot) is not in the whitelist of the family is answered with \<open>FILE_TYPE_INVALID\<close>,
  whatever its size: the extension is checked before the size. The whitelists are
  pptx, ppt, odp for presentations and docx, doc, odt, rtf for documents. Nothing is
  converted.
\<close>

theorem C4_invalid_extension:
  assumes "fileExt (fname file) \<notin> set (validExts fam)"
  shows "returned (process fam m st [file] cb env) =
           Failure FILE_TYPE_INVALID (typeMessage fam)
             (Some (''Received: '' @ (if ftype file \<noteq> [] then ftype file else fname file)))
         \<and> convertCalls (process fam m st [file] cb env) = []
         \<and> validExts Presentation = [''pptx'', ''ppt'', ''odp'']
         \<and> validExts Document = [''docx'', ''doc'', ''odt'', ''rtf'']"
  using assms by (simp add: process_def createErrorOutput_def)

theorem C4_invalid_extension_witness:
  "fileExt (fname hugeTextFile) \<notin> set (validExts Presentation)
   \<and> MAX_FILE_SIZE < fsize hugeTextFile
   \<and> returned (process Presentation freshModule newProcessor [hugeTextFile] True quietEnv) =
       Failure FILE_TYPE_INVALID ''Invalid file type. Please upload .pptx, .ppt, or .odp.''
         (Some ''Received: text/plain'')
   \<and> fileExt (fname deckFile) \<notin> set (validExts Document)
   \<and> returned (process Document freshModule newProcessor [deckFile] True quietEnv) =
       Failure FILE_TYPE_INVALID ''Invalid file type. Please upload .docx, .doc, .odt, or .rtf.''
         (Some ''Received: slides.v2.pptx'')"
proof -
  have a: "fileExt (fname hugeTextFile) \<notin> set (validExts Presentation)"
    by (simp add: hugeTextFile_def string_eval)
  have b: "fileExt (fname deckFile) \<notin> set (validExts Document)"
    by (simp add: deckFile_def string_eval)
  have c: "MAX_FILE_SIZE < fsize hugeTextFile"
    by (simp add: hugeTextFile_def MAX_FILE_SIZE_def)
  from C4_invalid_extension [OF a, of freshModule newProcessor True quietEnv]
    C4_invalid_extension [OF b, of freshModule newProcessor True quietEnv] a b c
  show ?thesis by (simp add: hugeTextFile_def deckFile_def)
qed

text \<open>
  Claim C3 speaks of every file above 52,428,800 bytes. A file of 60,000,000 bytes named
  \<open>notes.txt\<close> is answered with \<open>FILE_TYPE_INVALID\<close>, not with \<open>INVALID_OPTIONS\<close>, since
  the extension is checked first.
\<close>

theorem C3_oversized_counterexample:
  "52428800 < fsize hugeTextFile
   \<and> errorCode (returned (process Presentation freshModule newProcessor [hugeTextFile] True quietEnv))
       = Some FILE_TYPE_INVALID
   \<and> errorCode (returned (process Presentation freshModule newProcessor [hugeTextFile] True quietEnv))
       \<noteq> Some INVALID_OPTIONS"
  by (simp add: process_def createErrorOutput_def hugeTextFile_def string_eval)

text \<open>
  Claim C3, for files that pass the extension check. A single file with a whitelisted
  extension and more than 52,428,800 bytes is answered with \<open>INVALID_OPTIONS\<close>; the
  message holds the size of the file in MB, rounded to one decimal, and the limit of
  50 MB. Nothing is converted.
\<close>

theorem C3_oversized_valid_extension:
  assumes "fileExt (fname file) \<in> set (validExts fam)" and "52428800 < fsize file"
  shows "returned (process fam m st [file] cb env) =
           Failure INVALID_OPTIONS
             (''File is too large ('' @ toFixed1_MB (fsize file)
                @ '' MB). Maximum supported size is 50 MB.'')
             (Some (sizeDetails (fsize file)))
         \<and> sublist (toFixed1_MB (fsize file) @ '' MB'')
             (''File is too large ('' @ toFixed1_MB (fsize file)
                @ '' MB). Maximum supported size is 50 MB.'')
         \<and> sublist ''50 MB''
             (''File is too large ('' @ toFixed1_MB (fsize file)
                @ '' MB). Maximum supported size is 50 MB.'')
         \<and> (\<exists>n. toFixed1_MB (fsize file) = show_nat (n div 10) @ ''.'' @ [digit_char (n mod 10)]
                \<and> \<bar>real n / 10 - real (fsize file) / 1048576\<bar> \<le> 1 / 20)
         \<and> convertCalls (process fam m st [file] cb env) = []"
proof -
  have big: "MAX_FILE_SIZE < fsize file" using assms(2) by (simp add: MAX_FILE_SIZE_def)
  have rnd: "\<exists>n. toFixed1_MB (fsize file) = show_nat (n div 10) @ ''.'' @ [digit_char (n mod 10)]
                \<and> \<bar>real n / 10 - real (fsize file) / 1048576\<bar> \<le> 1 / 20"
    using toFixed1_MB_rounds [of "fsize file"] by blast
  have r: "returned (process fam m st [file] cb env) =
           Failure INVALID_OPTIONS (sizeMessage (fsize file)) (Some (sizeDetails (fsize file)))"
    and c: "convertCalls (process fam m st [file] cb env) = []"
    using assms(1) big by (simp_all add: process_def createErrorOutput_def)
  have s1: "sublist (toFixed1_MB (fsize file) @ '' MB'')
             (''File is too large ('' @ (toFixed1_MB (fsize file) @ '' MB'')
                @ ''). Maximum supported size is 50 MB.'')"
    by (rule sublist_appendI)
  have s2: "sublist ''50 MB''
             ((''File is too large ('' @ toFixed1_MB (fsize file)
                @ '' MB). Maximum supported size is '') @ ''50 MB'' @ ''.'')"
    by (rule sublist_appendI)
  from r c s1 s2 rnd show ?thesis by (simp add: sizeMessage_text)
qed

theorem C3_oversized_valid_extension_witness:
  "fileExt (fname hugeDeckFile) \<in> set (validExts Presentation) \<and> 52428800 < fsize hugeDeckFile
   \<and> returned (process Presentation freshModule newProcessor [hugeDeckFile] True quietEnv) =
       Failure INVALID_OPTIONS ''File is too large (57.2 MB). Maximum supported size is 50 MB.''
         (Some ''File size: 60000000 bytes, limit: 52428800 bytes'')"
proof -
  have a: "fileExt (fname hugeDeckFile) \<in> set (validExts Presentation)"
    by (simp add: hugeDeckFile_def string_eval)
  have b: "52428800 < fsize hugeDeckFile" by (simp add: hugeDeckFile_def)
  have t: "toFixed1_MB (fsize hugeDeckFile) = ''57.2''"
    by (simp add: hugeDeckFile_def toFixed1_MB_def show_nat.simps digit_char_def)
  have d: "sizeDetails (fsize hugeDeckFile) = ''File size: 60000000 bytes, limit: 52428800 bytes''"
    by (simp add: hugeDeckFile_def sizeDetails_def MAX_FILE_SIZE_def show_nat.simps digit_char_def)
  from C3_oversized_valid_extension [OF a b, of freshModule newProcessor True quietEnv] a b
  show ?thesis by (simp add: t d)
qed

section \<open>The output of a successful call\<close>

lemma process_success:
  assumes "isSuccess (returned (process fam m st0 files cb env))"
  shows "\<exists>file c m' reports blob.
           files = [file] \<and> fileExt (fname file) \<in> set (validExts fam) \<and>
           fsize file \<le> MAX_FILE_SIZE \<and>
           getConverter m (initOutcome env) = (Inr (Some c), m', reports) \<and>
           \<not> cancelDuringInit env \<and> \<not> cancelDuringConversion env \<and>
           raceOutcome env = ConversionResolves blob \<and>
           process fam m st0 files cb env =
             \<lparr>returned = Success blob (replaceExt fam (fname file) @ ''.pdf'') [(''format'', ''pdf'')],
              processor = updateProgress 100 ''Conversion complete!''
                (stopConversionProgress (intervalTicks (ticksDuringConversion env)
                  (startConversionProgress (convertingMessage fam)
                    (updateProgress 85 (convertingMessage fam)
                      (fold relayProgress reports
                        (updateProgress 5 loadingMessage
                          ((reset st0)\<lparr>onProgress := cb, delivered := []\<rparr>))))))),
              moduleAfter = m', convertCalls = [file]\<rparr>"
proof -
  obtain fl where f: "files = [fl]" "fileExt (fname fl) \<in> set (validExts fam)"
      "fsize fl \<le> MAX_FILE_SIZE"
    using process_success_single [OF assms] by blast
  have p: "process fam m st0 files cb env =
             tryBlock fam m ((reset st0)\<lparr>onProgress := cb, delivered := []\<rparr>) fl env"
    using f by (simp add: process_valid)
  from tryBlock_success [of fam m "(reset st0)\<lparr>onProgress := cb, delivered := []\<rparr>" fl env]
    assms p f show ?thesis by auto
qed

text \<open>
  Claim C8. When \<open>process\<close> succeeds, the output filename is the name of the input
  file with the match of the extension pattern removed and \<open>.pdf\<close> appended, and the
  metadata is exactly \<open>{format: 'pdf'}\<close>. So when the name ends in a dot and a last
  segment, that segment is, in lower case, one of the known extensions, and the output is
  what stands before the dot, with \<open>.pdf\<close>: \<open>Report.DOCX\<close> (which only the Word processor
  accepts) gives \<open>Report.pdf\<close>, and \<open>slides.v2.pptx\<close> (which only the PowerPoint
  processor accepts) gives \<open>slides.v2.pdf\<close>.
\<close>

theorem C8_output_name:
  assumes "isSuccess (returned (process fam m st [file] cb env))"
  shows "outputFilename (returned (process fam m st [file] cb env)) =
           Some (replaceExt fam (fname file) @ ''.pdf'')
         \<and> outputMetadata (returned (process fam m st [file] cb env)) = Some [(''format'', ''pdf'')]
         \<and> (\<forall>base e. fname file = base @ ''.'' @ e \<and> CHR ''.'' \<notin> set e \<longrightarrow>
               toLowerCase e \<in> set (validExts fam) \<and>
               outputFilename (returned (process fam m st [file] cb env)) = Some (base @ ''.pdf''))
         \<and> (fname file = ''Report.DOCX'' \<longrightarrow> fam = Document \<and>
               outputFilename (returned (process fam m st [file] cb env)) = Some ''Report.pdf'')
         \<and> (fname file = ''slides.v2.pptx'' \<longrightarrow> fam = Presentation \<and>
               outputFilename (returned (process fam m st [file] cb env)) = Some ''slides.v2.pdf'')"
proof -
  from process_success [OF assms]
  have ext: "fileExt (fname file) \<in> set (validExts fam)"
    and name: "outputFilename (returned (process fam m st [file] cb env)) =
                 Some (replaceExt fam (fname file) @ ''.pdf'')"
    and meta: "outputMetadata (returned (process fam m st [file] cb env)) = Some [(''format'', ''pdf'')]"
    by auto
  have strip: "toLowerCase e \<in> set (validExts fam) \<and> replaceExt fam (fname file) = base"
    if "fname file = base @ ''.'' @ e" "CHR ''.'' \<notin> set e" for base e
  proof -
    have "fileExt (fname file) = toLowerCase e"
      using that fileExt_last_segment [of e base] by simp
    with ext have "toLowerCase e \<in> set (validExts fam)" by simp
    then show ?thesis
      using that replaceExt_strips [of e fam base] by (simp add: regexWords_validExts)
  qed
  have report: "fam = Document \<and> replaceExt fam (fname file) = ''Report''"
    if "fname file = ''Report.DOCX''"
  proof -
    have "toLowerCase ''DOCX'' \<in> set (validExts fam) \<and> replaceExt fam (fname file) = ''Report''"
      using strip [of "''Report''" "''DOCX''"] that by simp
    then show ?thesis by (cases fam) (simp_all add: string_eval)
  qed
  have slides: "fam = Presentation \<and> replaceExt fam (fname file) = ''slides.v2''"
    if "fname file = ''slides.v2.pptx''"
  proof -
    have "toLowerCase ''pptx'' \<in> set (validExts fam)
            \<and> replaceExt fam (fname file) = ''slides.v2''"
      using strip [of "''slides.v2''" "''pptx''"] that by simp
    then show ?thesis by (cases fam) (simp_all add: string_eval)
  qed
  have c3: "\<forall>base e. fname file = base @ ''.'' @ e \<and> CHR ''.'' \<notin> set e \<longrightarrow>
               toLowerCase e \<in> set (validExts fam) \<and>
               outputFilename (returned (process fam m st [file] cb env)) = Some (base @ ''.pdf'')"
    using strip name by (metis (no_types))
  have c4: "fname file = ''Report.DOCX'' \<longrightarrow> fam = Document \<and>
               outputFilename (returned (process fam m st [file] cb env)) = Some ''Report.pdf''"
    using report name by (metis (no_types) append_Cons append_Nil)
  have c5: "fname file = ''slides.v2.pptx'' \<longrightarrow> fam = Presentation \<and>
               outputFilename (returned (process fam m st [file] cb env)) = Some ''slides.v2.pdf''"
    using slides name by (metis (no_types) append_Cons append_Nil)
  from name meta c3 c4 c5 show ?thesis by blast
qed

theorem C8_output_name_witness:
  "isSuccess (returned (process Document freshModule newProcessor [reportFile] True quietEnv))
   \<and> returned (process Document freshModule newProcessor [reportFile] True quietEnv) =
       Success pdfBytes ''Report.pdf'' [(''format'', ''pdf'')]
   \<and> isSuccess (returned (process Presentation freshModule newProcessor [deckFile] True quietEnv))
   \<and> returned (process Presentation freshModule newProcessor [deckFile] True quietEnv) =
       Success pdfBytes ''slides.v2.pdf'' [(''format'', ''pdf'')]"
proof -
  have r: "returned (process Document freshModule newProcessor [reportFile] True quietEnv) =
       Success pdfBytes (replaceExt Document ''Report.DOCX'' @ ''.pdf'') [(''format'', ''pdf'')]"
    by (simp add: run_eval input_eval string_eval text_eval del: replaceExt.simps)
  have d: "returned (process Presentation freshModule newProcessor [deckFile] True quietEnv) =
       Success pdfBytes (replaceExt Presentation ''slides.v2.pptx'' @ ''.pdf'') [(''format'', ''pdf'')]"
    by (simp add: run_eval input_eval string_eval text_eval del: replaceExt.simps)
  have sr: "isSuccess (returned (process Document freshModule newProcessor [reportFile] True quietEnv))"
    by (simp add: r)
  have sd: "isSuccess (returned (process Presentation freshModule newProcessor [deckFile] True quietEnv))"
    by (simp add: d)
  have nr: "fname reportFile = ''Report.DOCX''" by (simp add: reportFile_def)
  have nd: "fname deckFile = ''slides.v2.pptx''" by (simp add: deckFile_def)
  from C8_output_name [OF sr] C8_output_name [OF sd] sr sd nr nd r d
  show ?thesis by (simp del: replaceExt.simps)
qed

text \<open>
  Claim C10. The extension check looks only at the lower-cased part of the name after
  the last dot, and at the whole name when there is no dot. So a file whose whole name is
  an allowed extension, such as \<open>pptx\<close>, passes the type check; the pattern asks for a
  dot, so nothing is removed from the name, and a successful call names its output
  \<open>pptx.pdf\<close>.
\<close>

theorem C10_bare_extension_name:
  assumes "CHR ''.'' \<notin> set (fname file)"
    and "toLowerCase (fname file) \<in> set (validExts fam)"
  shows "fileExt (fname file) \<in> set (validExts fam)
         \<and> errorCode (returned (process fam m st [file] cb env)) \<noteq> Some FILE_TYPE_INVALID
         \<and> replaceExt fam (fname file) = fname file
         \<and> (isSuccess (returned (process fam m st [file] cb env)) \<longrightarrow>
              outputFilename (returned (process fam m st [file] cb env))
                = Some (fname file @ ''.pdf''))
         \<and> (\<forall>base e. CHR ''.'' \<notin> set e \<longrightarrow> fileExt (base @ ''.'' @ e) = toLowerCase e)"
proof -
  have ext: "fileExt (fname file) \<in> set (validExts fam)"
    using assms by (simp add: fileExt_no_dot)
  have code: "errorCode (returned (process fam m st [file] cb env)) \<noteq> Some FILE_TYPE_INVALID"
  proof (cases "fsize file \<le> MAX_FILE_SIZE")
    case True
    then show ?thesis
      using ext tryBlock_errorCode [of fam m "(reset st)\<lparr>onProgress := cb, delivered := []\<rparr>" "file" env]
      by (auto simp: process_valid)
  next
    case False
    then show ?thesis using ext by (simp add: process_def createErrorOutput_def)
  qed
  have keep: "replaceExt fam (fname file) = fname file"
    using assms(1) by (rule replaceExt_no_dot)
  have name: "outputFilename (returned (process fam m st [file] cb env))
                = Some (fname file @ ''.pdf'')"
    if "isSuccess (returned (process fam m st [file] cb env))"
    using process_success [OF that] keep by auto
  have seg: "\<forall>base e. CHR ''.'' \<notin> set e \<longrightarrow> fileExt (base @ ''.'' @ e) = toLowerCase e"
    using fileExt_last_segment by blast
  from ext code keep name seg show ?thesis by blast
qed

theorem C10_bare_extension_name_witness:
  "CHR ''.'' \<notin> set (fname bareNameFile)
   \<and> toLowerCase (fname bareNameFile) \<in> set (validExts Presentation)
   \<and> fileExt ''pptx'' = ''pptx''
   \<and> returned (process Presentation freshModule newProcessor [bareNameFile] True quietEnv) =
       Success pdfBytes ''pptx.pdf'' [(''format'', ''pdf'')]"
proof -
  have a: "CHR ''.'' \<notin> set (fname bareNameFile)" by (simp add: bareNameFile_def)
  have b: "toLowerCase (fname bareNameFile) \<in> set (validExts Presentation)"
    by (simp add: bareNameFile_def string_eval)
  have r: "returned (process Presentation freshModule newProcessor [bareNameFile] True quietEnv) =
       Success pdfBytes (replaceExt Presentation ''pptx'' @ ''.pdf'') [(''format'', ''pdf'')]"
    by (simp add: run_eval input_eval string_eval text_eval del: replaceExt.simps)
  have n: "fname bareNameFile = ''pptx''" by (simp add: bareNameFile_def)
  have e: "fileExt ''pptx'' = ''pptx''" by (simp add: string_eval)
  from C10_bare_extension_name [OF a b, of freshModule newProcessor True quietEnv] a b r n e
  show ?thesis by (simp del: replaceExt.simps)
qed

section \<open>Cancellation and timeout\<close>

lemma tryBlock_checkpoint1:
  assumes "getConverter m (initOutcome env) = (Inr conv, m', reports)"
    and "cancelDuringInit env"
  shows "tryBlock fam m st fl env =
           \<lparr>returned = Failure PROCESSING_CANCELLED cancelledMessage None,
            processor = cancel (fold relayProgress reports (updateProgress 5 loadingMessage st)),
            moduleAfter = m', convertCalls = []\<rparr>"
  using assms by (simp add: tryBlock_def Let_def checkCancelled_def createErrorOutput_def)

lemma tryBlock_converting:
  assumes "getConverter m (initOutcome env) = (Inr (Some c), m', reports)"
    and "\<not> cancelDuringInit env" and "\<not> isCancelled st"
  shows "tryBlock fam m st fl env =
     (let st5 = startConversionProgress (convertingMessage fam)
                  (updateProgress 85 (convertingMessage fam)
                    (fold relayProgress reports (updateProgress 5 loadingMessage st)));
          st6 = intervalTicks (ticksDuringConversion env) st5;
          st7 = (if cancelDuringConversion env then cancel st6 else st6)
      in case raceOutcome env of
           ConversionResolves pdfBlob \<Rightarrow>
             if cancelDuringConversion env then
               \<lparr>returned = Failure PROCESSING_CANCELLED cancelledMessage None,
                processor = stopConversionProgress st7, moduleAfter = m', convertCalls = [fl]\<rparr>
             else
               \<lparr>returned = Success pdfBlob (replaceExt fam (fname fl) @ ''.pdf'')
                             [(''format'', ''pdf'')],
                processor = updateProgress 100 ''Conversion complete!''
                              (stopConversionProgress st7),
                moduleAfter = m', convertCalls = [fl]\<rparr>
         | ConversionRejects e \<Rightarrow> catchBlock fam e st7 m' [fl]
         | TimerWins \<Rightarrow> catchBlock fam (JsError timeoutMessage) st7 m' [fl])"
  using assms
  by (simp add: tryBlock_def Let_def checkCancelled_def createErrorOutput_def
      createSuccessOutput_def split: raceOutcome.splits)

lemma cancelledMessage_text: "cancelledMessage = ''Processing was cancelled.''"
  by (simp add: cancelledMessage_def)

text \<open>
  Claim C6. The call has passed validation and \<open>getConverter\<close> has returned. The flag,
  cleared by \<open>reset\<close> when the call began, is set at the first checkpoint exactly when
  \<open>cancel()\<close> was called while \<open>getConverter\<close> was awaited: then the call returns
  \<open>PROCESSING_CANCELLED\<close> and \<open>convertToPdf\<close> is never called. If the flag is not set
  there but \<open>cancel()\<close> is called while the race is pending, and the conversion wins the
  race with a PDF, the second checkpoint returns \<open>PROCESSING_CANCELLED\<close> too: the PDF is
  dropped.
\<close>

theorem C6_cancellation_checkpoints:
  assumes "fileExt (fname file) \<in> set (validExts fam)" and "fsize file \<le> MAX_FILE_SIZE"
    and "getConverter m (initOutcome env) = (Inr conv, m', reports)"
  shows "(cancelDuringInit env \<longrightarrow>
            returned (process fam m st [file] cb env) =
              Failure PROCESSING_CANCELLED ''Processing was cancelled.'' None
            \<and> convertCalls (process fam m st [file] cb env) = [])
         \<and> (\<not> cancelDuringInit env \<and> conv = Some c \<and> cancelDuringConversion env
              \<and> raceOutcome env = ConversionResolves blob \<longrightarrow>
            returned (process fam m st [file] cb env) =
              Failure PROCESSING_CANCELLED ''Processing was cancelled.'' None
            \<and> convertCalls (process fam m st [file] cb env) = [file])"
proof -
  let ?st = "(reset st)\<lparr>onProgress := cb, delivered := []\<rparr>"
  have p: "process fam m st [file] cb env = tryBlock fam m ?st file env"
    using assms(1,2) by (rule process_valid)
  have early: "returned (process fam m st [file] cb env) =
                 Failure PROCESSING_CANCELLED ''Processing was cancelled.'' None
               \<and> convertCalls (process fam m st [file] cb env) = []"
    if "cancelDuringInit env"
    using tryBlock_checkpoint1 [OF assms(3) that, of fam ?st "file"] p
    by (simp add: cancelledMessage_text)
  have late: "returned (process fam m st [file] cb env) =
                 Failure PROCESSING_CANCELLED ''Processing was cancelled.'' None
               \<and> convertCalls (process fam m st [file] cb env) = [file]"
    if "\<not> cancelDuringInit env" "conv = Some c" "cancelDuringConversion env"
       "raceOutcome env = ConversionResolves blob"
  proof -
    have g: "getConverter m (initOutcome env) = (Inr (Some c), m', reports)"
      using assms(3) that(2) by simp
    have "\<not> isCancelled ?st" by simp
    from tryBlock_converting [OF g that(1) this, of fam "file"] that(3,4) p
    show ?thesis by (simp add: Let_def cancelledMessage_text)
  qed
  from early late show ?thesis by blast
qed

theorem C6_cancellation_checkpoints_witness:
  "fileExt (fname deckFile) \<in> set (validExts Presentation) \<and> fsize deckFile \<le> MAX_FILE_SIZE
   \<and> getConverter freshModule (initOutcome cancelEarlyEnv) =
        (Inr (Some (Converter True)),
         \<lparr>converterPromise = Some Fulfilled, converterInstance = Some (Converter True)\<rparr>, [])
   \<and> cancelDuringInit cancelEarlyEnv
   \<and> returned (process Presentation freshModule newProcessor [deckFile] True cancelEarlyEnv) =
        Failure PROCESSING_CANCELLED ''Processing was cancelled.'' None
   \<and> convertCalls (process Presentation freshModule newProcessor [deckFile] True cancelEarlyEnv) = []
   \<and> \<not> cancelDuringInit cancelLateEnv \<and> cancelDuringConversion cancelLateEnv
   \<and> raceOutcome cancelLateEnv = ConversionResolves pdfBytes
   \<and> returned (process Presentation freshModule newProcessor [deckFile] True cancelLateEnv) =
        Failure PROCESSING_CANCELLED ''Processing was cancelled.'' None
   \<and> convertCalls (process Presentation freshModule newProcessor [deckFile] True cancelLateEnv)
        = [deckFile]"
proof -
  have a: "fileExt (fname deckFile) \<in> set (validExts Presentation)"
    by (simp add: deckFile_def string_eval)
  have b: "fsize deckFile \<le> MAX_FILE_SIZE" by (simp add: deckFile_def MAX_FILE_SIZE_def)
  have g1: "getConverter freshModule (initOutcome cancelEarlyEnv) =
        (Inr (Some (Converter True)),
         \<lparr>converterPromise = Some Fulfilled, converterInstance = Some (Converter True)\<rparr>, [])"
    by (simp add: getConverter_def getConverter_enter_def getConverter_resume_def
        freshModule_def cancelEarlyEnv_def quietEnv_def)
  have g2: "getConverter freshModule (initOutcome cancelLateEnv) =
        (Inr (Some (Converter True)),
         \<lparr>converterPromise = Some Fulfilled, converterInstance = Some (Converter True)\<rparr>, [])"
    by (simp add: getConverter_def getConverter_enter_def getConverter_resume_def
        freshModule_def cancelLateEnv_def quietEnv_def)
  have e: "cancelDuringInit cancelEarlyEnv" "\<not> cancelDuringInit cancelLateEnv"
    "cancelDuringConversion cancelLateEnv" "raceOutcome cancelLateEnv = ConversionResolves pdfBytes"
    by (simp_all add: cancelEarlyEnv_def cancelLateEnv_def quietEnv_def raceOutcome_def
        CONVERT_TIMEOUT_MS_def)
  from C6_cancellation_checkpoints [OF a b g1, of newProcessor True "Converter True" pdfBytes]
    C6_cancellation_checkpoints [OF a b g2, of newProcessor True "Converter True" pdfBytes]
    a b g1 e
  show ?thesis by simp
qed

lemma raceOutcome_TimerWins:
  "raceOutcome env = TimerWins \<longleftrightarrow> \<not> settlesWithin CONVERT_TIMEOUT_MS env"
  by (simp add: raceOutcome_def settlesWithin_def split: option.splits prod.splits settlement.splits)

text \<open>
  Claim C5 says that the output comes with a message stating the timeout. When
  \<open>convertToPdf\<close> never settles, the message of the output is the fixed text of the
  processor, which names neither the five minutes nor the complexity of the file: the
  text of the timer's error is the diagnostic detail.
\<close>

theorem C5_timeout_message_counterexample:
  "\<not> settlesWithin 300000 hangingEnv
   \<and> returned (process Presentation freshModule newProcessor [deckFile] True hangingEnv) =
        Failure PROCESSING_FAILED ''Failed to convert PowerPoint to PDF.''
          (Some ''Conversion timed out after 5 minutes. The file may be too complex.'')
   \<and> \<not> sublist ''5 minutes'' ''Failed to convert PowerPoint to PDF.''
   \<and> \<not> sublist ''complex'' ''Failed to convert PowerPoint to PDF.''"
proof -
  have a: "\<not> settlesWithin 300000 hangingEnv"
    by (simp add: settlesWithin_def hangingEnv_def quietEnv_def)
  have b: "returned (process Presentation freshModule newProcessor [deckFile] True hangingEnv) =
        Failure PROCESSING_FAILED ''Failed to convert PowerPoint to PDF.''
          (Some ''Conversion timed out after 5 minutes. The file may be too complex.'')"
    by (simp add: run_eval input_eval string_eval text_eval)
  have c: "\<not> sublist ''5 minutes'' ''Failed to convert PowerPoint to PDF.''"
    by code_simp
  have d: "\<not> sublist ''complex'' ''Failed to convert PowerPoint to PDF.''"
    by code_simp
  from a b c d show ?thesis by blast
qed

text \<open>
  Claim C5, with the place of the timeout text. The call has passed validation,
  \<open>getConverter\<close> has returned a handle and nobody has cancelled; then the race begins,
  and the 300,000 ms of \<open>CONVERT_TIMEOUT_MS\<close> are counted from there. If \<open>convertToPdf\<close>
  does not settle within them, the timer wins and the call returns \<open>PROCESSING_FAILED\<close>;
  the message of the output is the fixed text of the processor, and its diagnostic
  detail is the message of the timer's error, which states the five minutes and that the
  file may be too complex. The interval is cleared, so that no later firing reaches the
  callback.
\<close>

theorem C5_conversion_timeout:
  assumes "fileExt (fname file) \<in> set (validExts fam)" and "fsize file \<le> MAX_FILE_SIZE"
    and "getConverter m (initOutcome env) = (Inr (Some c), m', reports)"
    and "\<not> cancelDuringInit env" and "\<not> settlesWithin 300000 env"
  shows "returned (process fam m st [file] cb env) =
           Failure PROCESSING_FAILED (failedMessage fam)
             (Some ''Conversion timed out after 5 minutes. The file may be too complex.'')
         \<and> CONVERT_TIMEOUT_MS = 300000
         \<and> raceOutcome env = TimerWins
         \<and> conversionProgressTimer (processor (process fam m st [file] cb env)) = None
         \<and> (\<forall>n. intervalTicks n (processor (process fam m st [file] cb env))
                  = processor (process fam m st [file] cb env))
         \<and> convertCalls (process fam m st [file] cb env) = [file]"
proof -
  let ?st = "(reset st)\<lparr>onProgress := cb, delivered := []\<rparr>"
  have k: "CONVERT_TIMEOUT_MS = 300000" by (simp add: CONVERT_TIMEOUT_MS_def)
  have w: "raceOutcome env = TimerWins"
    using assms(5) k by (simp add: raceOutcome_TimerWins)
  have p: "process fam m st [file] cb env = tryBlock fam m ?st file env"
    using assms(1,2) by (rule process_valid)
  have "\<not> isCancelled ?st" by simp
  from tryBlock_converting [OF assms(3,4) this, of fam "file"] w p
  have r: "returned (process fam m st [file] cb env) =
           Failure PROCESSING_FAILED (failedMessage fam) (Some timeoutMessage)"
    and t: "conversionProgressTimer (processor (process fam m st [file] cb env)) = None"
    and c: "convertCalls (process fam m st [file] cb env) = [file]"
    by (simp_all add: Let_def catchBlock_def createErrorOutput_def)
  have n: "\<forall>n. intervalTicks n (processor (process fam m st [file] cb env))
                  = processor (process fam m st [file] cb env)"
    using t by (simp add: intervalTicks_stopped)
  from r t c n k w show ?thesis by (simp add: timeoutMessage_text)
qed

theorem C5_conversion_timeout_witness:
  "fileExt (fname deckFile) \<in> set (validExts Presentation) \<and> fsize deckFile \<le> MAX_FILE_SIZE
   \<and> getConverter freshModule (initOutcome hangingEnv) =
        (Inr (Some (Converter True)),
         \<lparr>converterPromise = Some Fulfilled, converterInstance = Some (Converter True)\<rparr>, [])
   \<and> \<not> cancelDuringInit hangingEnv \<and> \<not> settlesWithin 300000 hangingEnv
   \<and> returned (process Presentation freshModule newProcessor [deckFile] True hangingEnv) =
        Failure PROCESSING_FAILED ''Failed to convert PowerPoint to PDF.''
          (Some ''Conversion timed out after 5 minutes. The file may be too complex.'')
   \<and> conversionProgressTimer
        (processor (process Presentation freshModule newProcessor [deckFile] True hangingEnv)) = None"
proof -
  have a: "fileExt (fname deckFile) \<in> set (validExts Presentation)"
    by (simp add: deckFile_def string_eval)
  have b: "fsize deckFile \<le> MAX_FILE_SIZE" by (simp add: deckFile_def MAX_FILE_SIZE_def)
  have g: "getConverter freshModule (initOutcome hangingEnv) =
        (Inr (Some (Converter True)),
         \<lparr>converterPromise = Some Fulfilled, converterInstance = Some (Converter True)\<rparr>, [])"
    by (simp add: getConverter_def getConverter_enter_def getConverter_resume_def
        freshModule_def hangingEnv_def quietEnv_def)
  have e: "\<not> cancelDuringInit hangingEnv" "\<not> settlesWithin 300000 hangingEnv"
    by (simp_all add: hangingEnv_def quietEnv_def settlesWithin_def)
  from C5_conversion_timeout [OF a b g e, of newProcessor True] a b g e
  show ?thesis by simp
qed

section \<open>Progress\<close>

lemma relayProgress_delivered:
  "onProgress st \<Longrightarrow> delivered (relayProgress r st) = delivered st @ [relayedCall r]"
  by (simp add: relayProgress_def relayedCall_def)

lemma fold_relayProgress_delivered:
  "onProgress st \<Longrightarrow> delivered (fold relayProgress rs st) = delivered st @ map relayedCall rs"
  by (induction rs arbitrary: st) (simp_all add: relayProgress_delivered)

lemma updateProgress_extends:
  "prefix xs (delivered st) \<Longrightarrow> prefix xs (delivered (updateProgress p msg st))"
  by (simp add: prefix_def) (metis append.assoc)

lemma intervalTick_extends:
  "prefix xs (delivered st) \<Longrightarrow> prefix xs (delivered (intervalTick st))"
  by (simp add: intervalTick_def updateProgress_extends split: option.splits)

lemma intervalTicks_extends:
  "prefix xs (delivered st) \<Longrightarrow> prefix xs (delivered (intervalTicks n st))"
  by (induction n arbitrary: st) (simp_all add: intervalTick_extends)

lemma tryBlock_trace_prefix:
  assumes "onProgress st" and "getConverter m (initOutcome env) = (r, m', reports)"
  shows "prefix (delivered st @ (5, loadingMessage) # map relayedCall reports)
           (delivered (processor (tryBlock fam m st fl env)))"
proof -
  let ?st2 = "fold relayProgress reports (updateProgress 5 loadingMessage st)"
  let ?xs = "delivered st @ (5, loadingMessage) # map relayedCall reports"
  have d2: "delivered ?st2 = ?xs"
    using assms(1) by (simp add: fold_relayProgress_delivered)
  have base: "prefix ?xs (delivered ?st2)" by (simp add: d2)
  have conv: "prefix ?xs (delivered (intervalTicks n
                (startConversionProgress msg (updateProgress 85 msg s))))"
    if "delivered s = delivered ?st2" for n msg s
    by (rule intervalTicks_extends) (simp add: updateProgress_extends that d2)
  show ?thesis
    using assms(2) base conv
    by (simp add: tryBlock_def catchBlock_def Let_def updateProgress_extends
        split: sum.splits option.splits raceOutcome.splits)
qed

lemma relayedCall_band: "0 \<le> fst (relayedCall r) \<and> fst (relayedCall r) \<le> 80"
  by (simp add: relayedCall_def)

lemma relayedCall_value:
  "relayedCall (p, msg) = (max 0 (min (double_times p double_0_8) 80), msg)"
  by (simp add: relayedCall_def)

lemma relayedCall_nonneg:
  "0 \<le> p \<Longrightarrow> relayedCall (p, msg) = (min (double_times p double_0_8) 80, msg)"
  using double_times_nonneg [of p] by (simp add: relayedCall_def)

text \<open>
  Claim C7 puts every relayed value in the band from 5 to 80. An engine that reports
  0 percent when it starts has 0 relayed to the caller, after the 5 of the first report.
\<close>

theorem C7_relay_counterexample:
  "initOutcome zeroReportEnv = InitializeResolves [(0, ''Starting'')]
   \<and> delivered (processor (process Presentation freshModule newProcessor [deckFile] True zeroReportEnv))
       = [(5, ''Loading conversion engine (first time may take 1-2 minutes)...''),
          (0, ''Starting''),
          (85, ''Converting PowerPoint to PDF...''),
          (100, ''Conversion complete!'')]
   \<and> fst (delivered (processor
        (process Presentation freshModule newProcessor [deckFile] True zeroReportEnv)) ! 1) < 5"
  by (simp add: run_eval input_eval string_eval text_eval double_times_examples)

text \<open>
  Claim C7, with the band that the code keeps. When the call itself starts the
  initialization, the callback receives 5 first and then, for every engine report, the
  value of \<open>relayedCall\<close>, in the order of the reports. For a report of percent \<open>p\<close>
  that value is \<open>Math.min(p * 0.8, 80)\<close>, the product being the product of doubles, or 0
  when that is negative, which it is not for \<open>p \<ge> 0\<close>; every relayed value lies between
  0 and 80.
\<close>

theorem C7_relay:
  assumes "fileExt (fname file) \<in> set (validExts fam)" and "fsize file \<le> MAX_FILE_SIZE"
    and "fst (getConverter_enter m) = StartsInitialization"
  shows "prefix ((5, loadingMessage) # map relayedCall (initReports (initOutcome env)))
           (delivered (processor (process fam m st [file] True env)))
         \<and> relayedCall (p, msg) = (max 0 (min (double_times p double_0_8) 80), msg)
         \<and> (0 \<le> p \<longrightarrow> relayedCall (p, msg) = (min (double_times p double_0_8) 80, msg))
         \<and> 0 \<le> fst (relayedCall (p, msg)) \<and> fst (relayedCall (p, msg)) \<le> 80"
proof -
  let ?st = "(reset st)\<lparr>onProgress := True, delivered := []\<rparr>"
  obtain r m' where g: "getConverter m (initOutcome env) = (r, m', initReports (initOutcome env))"
    using assms(3) by (cases "getConverter_enter m") (simp add: getConverter_def Let_def)
  have p: "process fam m st [file] True env = tryBlock fam m ?st file env"
    using assms(1,2) by (rule process_valid)
  have "onProgress ?st" by simp
  from tryBlock_trace_prefix [OF this g, of fam "file"] p
  have "prefix ((5, loadingMessage) # map relayedCall (initReports (initOutcome env)))
           (delivered (processor (process fam m st [file] True env)))"
    by simp
  then show ?thesis
    using relayedCall_nonneg [of p msg] relayedCall_band [of "(p, msg)"]
      relayedCall_value [of p msg] by blast
qed

theorem C7_relay_witness:
  "fileExt (fname deckFile) \<in> set (validExts Presentation) \<and> fsize deckFile \<le> MAX_FILE_SIZE
   \<and> fst (getConverter_enter freshModule) = StartsInitialization
   \<and> prefix [(5, loadingMessage), (8, ''Downloading''), (40, ''Compiling''), (80, ''Ready'')]
       (delivered (processor (process Presentation freshModule newProcessor [deckFile] True risingEnv)))
   \<and> (0::real) \<le> 50 \<and> relayedCall (50, ''Compiling'') = (40, ''Compiling'')"
proof -
  have a: "fileExt (fname deckFile) \<in> set (validExts Presentation)"
    by (simp add: deckFile_def string_eval)
  have b: "fsize deckFile \<le> MAX_FILE_SIZE" by (simp add: deckFile_def MAX_FILE_SIZE_def)
  have c: "fst (getConverter_enter freshModule) = StartsInitialization"
    by (simp add: getConverter_enter_def freshModule_def)
  have r: "initReports (initOutcome risingEnv) =
             [(10, ''Downloading''), (50, ''Compiling''), (100, ''Ready'')]"
    by (simp add: risingEnv_def quietEnv_def)
  from C7_relay [OF a b c, of risingEnv newProcessor 50 "''Compiling''"] a b c
  show ?thesis by (simp add: r relayedCall_def double_times_examples)
qed








section \<open>The converter provider\<close>

lemma tryBlock_moduleAfter:
  "moduleAfter (tryBlock fam m st fl env) = fst (snd (getConverter m (initOutcome env)))"
  by (simp add: tryBlock_def catchBlock_def Let_def
      split: prod.splits sum.splits option.splits raceOutcome.splits)

lemma process_moduleAfter:
  "moduleAfter (process fam m st files cb env) = m
   \<or> moduleAfter (process fam m st files cb env) = fst (snd (getConverter m (initOutcome env)))"
  by (simp add: process_def Let_def tryBlock_moduleAfter split: list.splits)

lemma getConverter_ready:
  "converterInstance m = Some c \<Longrightarrow> isReady c \<Longrightarrow> getConverter m outcome = (Inr (Some c), m, [])"
  by (simp add: getConverter_def getConverter_enter_def)

lemma getConverter_enter_starts:
  assumes "fst (getConverter_enter m) = StartsInitialization"
  shows "converterPromise m = None"
    and "getConverter_enter m = (StartsInitialization, m\<lparr>converterPromise := Some Pending\<rparr>)"
  using assms by (auto simp: getConverter_enter_def split: option.splits if_splits)

text \<open>
  Claim C2. A failing initialization throws its error in the caller that started it and
  in a caller that joined it while it was pending. But \<open>converterPromise\<close> keeps the
  rejected promise: the next call of \<open>getConverter\<close> awaits it again and throws the same
  error, whatever the engine would do now, and starts no new initialization. So does
  every later \<open>process\<close>: it returns \<open>PROCESSING_FAILED\<close> with the old error.
\<close>

theorem C2_failed_initialization_stays:
  "getConverter freshModule (InitializeRejects rs e) =
     (Inl e, \<lparr>converterPromise = Some (Rejected e), converterInstance = Some (Converter False)\<rparr>, rs)
   \<and> getConverter (snd (getConverter_enter freshModule)) (InitializeRejects rs e) =
     (Inl e, \<lparr>converterPromise = Some (Rejected e), converterInstance = Some (Converter False)\<rparr>, [])
   \<and> getConverter_enter
       \<lparr>converterPromise = Some (Rejected e), converterInstance = Some (Converter False)\<rparr> =
     (AwaitsExisting,
      \<lparr>converterPromise = Some (Rejected e), converterInstance = Some (Converter False)\<rparr>)
   \<and> getConverter
       \<lparr>converterPromise = Some (Rejected e), converterInstance = Some (Converter False)\<rparr> outcome =
     (Inl e, \<lparr>converterPromise = Some (Rejected e), converterInstance = Some (Converter False)\<rparr>, [])
   \<and> getConverter freshModule (ImportRejects e) =
     (Inl e, \<lparr>converterPromise = Some (Rejected e), converterInstance = None\<rparr>, [])
   \<and> getConverter \<lparr>converterPromise = Some (Rejected e), converterInstance = None\<rparr> outcome =
     (Inl e, \<lparr>converterPromise = Some (Rejected e), converterInstance = None\<rparr>, [])
   \<and> returned (process Presentation
        \<lparr>converterPromise = Some (Rejected (JsError ''network error'')),
         converterInstance = Some (Converter False)\<rparr> newProcessor [deckFile] True quietEnv) =
     Failure PROCESSING_FAILED ''Failed to convert PowerPoint to PDF.'' (Some ''network error'')"
  by (simp add: getConverter_def getConverter_enter_def getConverter_resume_def freshModule_def
      process_def tryBlock_def catchBlock_def createErrorOutput_def Let_def deckFile_def
      quietEnv_def string_eval MAX_FILE_SIZE_def)

text \<open>
  Claim C9 says that at most one initialization runs in the whole process. While the
  initialization of the PowerPoint module is pending, \<open>getConverter\<close> of the Word module
  finds its own \<open>converterPromise\<close> empty and starts a second one.
\<close>

theorem C9_two_modules_counterexample:
  "fst (getConverter_enter_in Presentation freshRuntime) = StartsInitialization
   \<and> pendingInitializations (snd (getConverter_enter_in Presentation freshRuntime)) = 1
   \<and> fst (getConverter_enter_in Document (snd (getConverter_enter_in Presentation freshRuntime)))
       = StartsInitialization
   \<and> pendingInitializations
       (snd (getConverter_enter_in Document (snd (getConverter_enter_in Presentation freshRuntime))))
       = 2"
  by (simp add: getConverter_enter_in_def getConverter_enter_def pendingInitializations_def
      freshRuntime_def freshModule_def)

text \<open>
  Claim C9, for each module by itself. When the module holds a ready handle,
  \<open>getConverter\<close> returns it at once, leaves the module as it is and relays nothing, and
  \<open>process\<close> leaves the module as it is. A call starts an initialization only when the
  module has no promise; while that one is pending, another call of the same module
  starts none, leaves the marker as it is, and gets the same result and the same module
  as the call that started it.
\<close>

theorem C9_singleton_per_module:
  "(converterInstance m = Some c \<and> isReady c \<longrightarrow>
      getConverter m outcome = (Inr (Some c), m, [])
      \<and> moduleAfter (process fam m st files cb env) = m)
   \<and> (fst (getConverter_enter m) = StartsInitialization \<longrightarrow>
      converterPromise m = None
      \<and> converterPromise (snd (getConverter_enter m)) = Some Pending
      \<and> getConverter_enter (snd (getConverter_enter m)) =
          (AwaitsExisting, snd (getConverter_enter m))
      \<and> fst (getConverter (snd (getConverter_enter m)) outcome) = fst (getConverter m outcome)
      \<and> fst (snd (getConverter (snd (getConverter_enter m)) outcome))
          = fst (snd (getConverter m outcome)))"
proof -
  have ready: "getConverter m outcome = (Inr (Some c), m, [])
               \<and> moduleAfter (process fam m st files cb env) = m"
    if "converterInstance m = Some c" "isReady c"
    using getConverter_ready [OF that] process_moduleAfter [of fam m st files cb env]
    by auto
  have pending: "converterPromise m = None
      \<and> converterPromise (snd (getConverter_enter m)) = Some Pending
      \<and> getConverter_enter (snd (getConverter_enter m)) =
          (AwaitsExisting, snd (getConverter_enter m))
      \<and> fst (getConverter (snd (getConverter_enter m)) outcome) = fst (getConverter m outcome)
      \<and> fst (snd (getConverter (snd (getConverter_enter m)) outcome))
          = fst (snd (getConverter m outcome))"
    if "fst (getConverter_enter m) = StartsInitialization"
  proof -
    let ?m1 = "m\<lparr>converterPromise := Some Pending\<rparr>"
    have e: "getConverter_enter m = (StartsInitialization, ?m1)"
      and n: "converterPromise m = None"
      using getConverter_enter_starts [OF that] by simp_all
    have nr: "(case converterInstance m of Some c \<Rightarrow> if isReady c then Some c else None
               | None \<Rightarrow> None) = None"
      using that by (auto simp: getConverter_enter_def split: option.splits if_splits)
    have e1: "getConverter_enter ?m1 = (AwaitsExisting, ?m1)"
      using nr by (simp add: getConverter_enter_def)
    have g0: "getConverter m outcome =
                (getConverter_resume (runInitialization outcome ?m1),
                 runInitialization outcome ?m1, initReports outcome)"
      using e by (simp add: getConverter_def Let_def)
    have g1: "getConverter ?m1 outcome =
                (getConverter_resume (runInitialization outcome ?m1),
                 runInitialization outcome ?m1, [])"
      using e1 by (simp add: getConverter_def Let_def)
    show ?thesis using e n e1 g0 g1 by simp
  qed
  from ready pending show ?thesis by blast
qed

theorem C9_singleton_per_module_witness:
  "converterInstance \<lparr>converterPromise = Some Fulfilled,
                       converterInstance = Some (Converter True)\<rparr> = Some (Converter True)
   \<and> isReady (Converter True)
   \<and> getConverter \<lparr>converterPromise = Some Fulfilled, converterInstance = Some (Converter True)\<rparr>
       (InitializeRejects [] NonError) =
       (Inr (Some (Converter True)),
        \<lparr>converterPromise = Some Fulfilled, converterInstance = Some (Converter True)\<rparr>, [])
   \<and> moduleAfter (process Presentation
        \<lparr>converterPromise = Some Fulfilled, converterInstance = Some (Converter True)\<rparr>
        newProcessor [deckFile] True quietEnv) =
       \<lparr>converterPromise = Some Fulfilled, converterInstance = Some (Converter True)\<rparr>
   \<and> fst (getConverter_enter freshModule) = StartsInitialization
   \<and> getConverter_enter (snd (getConverter_enter freshModule)) =
       (AwaitsExisting, snd (getConverter_enter freshModule))
   \<and> fst (getConverter (snd (getConverter_enter freshModule)) (InitializeResolves [])) =
       Inr (Some (Converter True))
   \<and> fst (getConverter freshModule (InitializeResolves [])) = Inr (Some (Converter True))"
proof -
  let ?ready = "\<lparr>converterPromise = Some Fulfilled, converterInstance = Some (Converter True)\<rparr>"
  have a: "converterInstance ?ready = Some (Converter True) \<and> isReady (Converter True)" by simp
  have b: "fst (getConverter_enter freshModule) = StartsInitialization"
    by (simp add: getConverter_enter_def freshModule_def)
  have c: "fst (getConverter freshModule (InitializeResolves [])) = Inr (Some (Converter True))"
    by (simp add: getConverter_def getConverter_enter_def getConverter_resume_def freshModule_def)
  from C9_singleton_per_module [of ?ready "Converter True" "InitializeRejects [] NonError"
      Presentation newProcessor "[deckFile]" True quietEnv]
    C9_singleton_per_module [of freshModule "Converter True" "InitializeResolves []"
      Presentation newProcessor "[deckFile]" True quietEnv] a b c
  show ?thesis by simp
qed

end
